theory Spec2Isabelle
  imports Main
begin

section \<open>Go syntax trees and type information\<close>

text \<open>
  The library explains a boolean passed to \<open>Assert\<close>/\<open>Require\<close> from the syntax tree of the
  calling source line. The embedding below follows package \<open>message\<close> (\<open>FromBool\<close>,
  \<open>customizeASTExprRepr\<close> and its helpers), package \<open>code\<close> (\<open>GetPackageAST\<close>,
  \<open>ParsePackageAST\<close>, \<open>GetCallerCallExpr\<close>) and package \<open>test\<close> (\<open>Assert\<close>, \<open>Require\<close>,
  \<open>logResult\<close>).

  Where the sources hold two versions of a file, the embedding follows the later one (the
  one with \<open>mustGetExprBoolValue\<close> and \<open>logResult\<close>); \<open>assert.go\<close>, with \<open>eval\<close>, is embedded
  beside it.

  What the Go standard library and \<open>golang.org/x/tools\<close> compute (the printer of
  \<open>go/format\<close>, the tables of \<open>go/types\<close>, the file set, \<open>packages.Load\<close>,
  \<open>runtime.Caller\<close>) is data of the model: fields of the records \<open>package\<close> and \<open>world\<close>.
\<close>

text \<open>The operators of \<open>go/token\<close> the rewriter looks at; every other one is \<open>OtherToken\<close>.\<close>

datatype token = LAND | LOR | EQL | NEQ | GTR | GEQ | LSS | LEQ | NOT | ARROW | OtherToken string

type_synonym pos = nat

text \<open>
  \<open>ast.Node\<close>: the expression shapes the rewriter distinguishes, with the position each one
  stores itself. \<open>NilExpr\<close> is the nil interface value. \<open>FuncLit\<close> keeps its position and its
  children (type and body). \<open>OtherNode\<close> is every other node (literal, index expression,
  statement, declaration, file) with the name of its dynamic type, its position and its
  children in the order \<open>ast.Walk\<close> visits them.
\<close>

datatype expr =
    NilExpr
  | BinaryExpr expr token expr
  | CallExpr expr "expr list"
  | FuncLit pos "expr list"
  | Ident pos string
  | ParenExpr pos expr
  | SelectorExpr expr expr
  | UnaryExpr pos token expr
  | OtherNode string pos "expr list"

text \<open>\<open>go/types\<close>: the kinds of basic types, types, objects and constant values that are tested.\<close>

datatype basic_kind = Bool | UntypedBool | UntypedNil | OtherKind string

text \<open>
  \<open>Signature rs s\<close> is a function type with result types \<open>rs\<close>, printed as \<open>s\<close>;
  \<open>UniverseError\<close> is the type of the universe's \<open>error\<close>; \<open>OtherType s\<close> is any other type,
  printed as \<open>s\<close>.
\<close>

datatype gotype = Basic basic_kind | Signature "gotype list" string | UniverseError | OtherType string

datatype object_kind = ObjVar | ObjConst | ObjNil | ObjOther string

text \<open>
  \<open>types.Object\<close>: its dynamic type, \<open>Name()\<close>, the path of \<open>Pkg()\<close> (\<open>None\<close> when \<open>Pkg()\<close> is
  nil, as for the objects of the universe), and whether \<open>Parent()\<close> is \<open>types.Universe\<close>.
\<close>

datatype object = Object (okind: object_kind) (Name: string) (PkgPathOf: "string option")
  (ParentIsUniverse: bool)

datatype constant_value = ConstBool bool | ConstOther string

record type_and_value =
  IsValue :: bool
  Value :: "constant_value option"

text \<open>
  \<open>packages.Package\<close>: \<open>Syntax\<close> holds the files, \<open>Position\<close> is \<open>Fset.Position\<close> (file name and
  line), \<open>format_Node\<close> is \<open>format.Node\<close> with the package's file set (\<open>Inl\<close> its error),
  \<open>TypeOf\<close>, \<open>ObjectOf\<close> and \<open>Types\<close> are \<open>TypesInfo\<close>.
\<close>

record package =
  PkgPath :: string
  Errors :: "string list"
  Syntax :: "expr list"
  Position :: "pos \<Rightarrow> string \<times> nat"
  format_Node :: "expr \<Rightarrow> string + string"
  TypeOf :: "expr \<Rightarrow> gotype option"
  ObjectOf :: "expr \<Rightarrow> object option"
  Types :: "expr \<Rightarrow> type_and_value option"

section \<open>Errors and panics\<close>

text \<open>One constructor for each \<open>errors.New\<close> / \<open>fmt.Errorf\<close> of the packages, with what it wraps.\<close>

datatype error =
    NoCallerInformation
  | UnableToGetPackageAST error
  | UnableToParseCallerPackage string error
  | UnableToLoadPackages string
  | LoadedPackagesContainedErrors "string list"
  | UnableToGetCallExprFromCaller error
  | UnableToFindASTFileAndPackage string
  | UnableToGetCallExpression error
  | ASTInspectionDidNotReturnANode
  | UnexpectedCallExprArgumentsNumber nat
  | UnableToGetArgRepr error
  | UnableToGetLANDLORX error
  | UnableToGetLANDLORY error
  | UnhandledBinaryOperator token
  | UnableToGetFuncIdentSelector error expr
  | UnableToGetFuncSelSelector error expr
  | UnhandledFunctionType expr
  | UnexpectedIdentObj "object option"
  | UnhandledUnaryExprOperator expr
  | UnhandledUnaryOperator token
  | UnhandledExprType expr
  | IdentObjectIsNil

text \<open>
  The run-time panics: an index out of range (index, length), a method called through a nil
  pointer, the two explicit panics of \<open>mustGetExprBoolValue\<close>, a failed type assertion, and
  the panic of \<open>InitPackageASTCache\<close>.
\<close>

datatype panic =
    IndexOutOfRange nat nat
  | NilPointerDereference
  | ExprIsNil
  | TypeNotFoundOrValueIsNotABool expr
  | InterfaceConversion
  | FailToInitPackageCache error

datatype 'a outcome = Returns 'a | Panics panic

section \<open>Package message: the rewriter\<close>

definition boolString :: "bool \<Rightarrow> string" where
  "boolString b = (if b then ''true'' else ''false'')"

text \<open>\<open>String()\<close> of a type, as \<open>%s\<close> prints it; a nil type prints as \<open>%!s(<nil>)\<close>.\<close>

fun typeString :: "gotype option \<Rightarrow> string" where
  "typeString None = ''%!s(<nil>)''"
| "typeString (Some (Basic Bool)) = ''bool''"
| "typeString (Some (Basic UntypedBool)) = ''untyped bool''"
| "typeString (Some (Basic UntypedNil)) = ''untyped nil''"
| "typeString (Some (Basic (OtherKind s))) = s"
| "typeString (Some (Signature rs s)) = s"
| "typeString (Some UniverseError) = ''error''"
| "typeString (Some (OtherType s)) = s"

definition genericASTExprToString :: "package \<Rightarrow> expr \<Rightarrow> string" where
  "genericASTExprToString pkg e =
     (case format_Node pkg e of
        Inl err \<Rightarrow> ''<error formatting expression: '' @ err @ ''>''
      | Inr s \<Rightarrow> s)"

fun isExprNil :: "package \<Rightarrow> expr \<Rightarrow> bool" where
  "isExprNil pkg NilExpr = False"
| "isExprNil pkg (Ident p n) =
     (case ObjectOf pkg (Ident p n) of Some obj \<Rightarrow> okind obj = ObjNil | None \<Rightarrow> False)"
| "isExprNil pkg _ = False"

definition isExprBool :: "package \<Rightarrow> expr \<Rightarrow> bool" where
  "isExprBool pkg e =
     (if e = NilExpr then False
      else case TypeOf pkg e of
             Some (Basic k) \<Rightarrow> k = Bool \<or> k = UntypedBool
           | _ \<Rightarrow> False)"

fun isExprFunc :: "package \<Rightarrow> expr \<Rightarrow> bool" where
  "isExprFunc pkg (CallExpr f args) = True"
| "isExprFunc pkg _ = False"

fun isExprFuncReturningOnlyError :: "package \<Rightarrow> expr \<Rightarrow> bool" where
  "isExprFuncReturningOnlyError pkg (CallExpr f args) =
     (case TypeOf pkg f of
        Some (Signature rs s) \<Rightarrow> (if length rs \<noteq> 1 then False else rs ! 0 = UniverseError)
      | _ \<Rightarrow> False)"
| "isExprFuncReturningOnlyError pkg _ = False"

text \<open>\<open>getIdentSelector\<close> returns \<open>(package path, name, error)\<close>.\<close>

definition getIdentSelector :: "package \<Rightarrow> expr \<Rightarrow> (string \<times> string \<times> error option) outcome" where
  "getIdentSelector pkg e =
     (if e = NilExpr then Returns ('''', '''', None)
      else case ObjectOf pkg e of
             None \<Rightarrow> Returns ('''', '''', Some IdentObjectIsNil)
           | Some obj \<Rightarrow>
               (case PkgPathOf obj of
                  None \<Rightarrow> Panics NilPointerDereference
                | Some path \<Rightarrow> Returns (path, Name obj, None)))"

definition mustGetExprBoolValue :: "package \<Rightarrow> expr \<Rightarrow> bool outcome" where
  "mustGetExprBoolValue pkg e =
     (if e = NilExpr then Panics ExprIsNil
      else case Types pkg e of
             Some tv \<Rightarrow>
               (if IsValue tv then
                  (case Value tv of
                     Some (ConstBool b) \<Rightarrow> Returns b
                   | _ \<Rightarrow> Panics (TypeNotFoundOrValueIsNotABool e))
                else Panics (TypeNotFoundOrValueIsNotABool e))
           | None \<Rightarrow> Panics (TypeNotFoundOrValueIsNotABool e))"

text \<open>
  The index expressions \<open>Args[i]\<close> and \<open>Args[j]\<close> of the call case, read in this order: the
  first index that is out of range panics.
\<close>

definition indexArgs :: "expr list \<Rightarrow> nat \<Rightarrow> nat \<Rightarrow> (expr \<times> expr) outcome" where
  "indexArgs args i j =
     (if i < length args then
        (if j < length args then Returns (args ! i, args ! j)
         else Panics (IndexOutOfRange j (length args)))
      else Panics (IndexOutOfRange i (length args)))"

text \<open>
  The second \<open>switch\<close> of the call case of \<open>customizeASTExprRepr\<close>: \<open>p\<close> and \<open>t\<close> are the
  package path and the name of the called function, \<open>e\<close> is the call and \<open>args\<close> its arguments.
\<close>

definition callRepr ::
  "package \<Rightarrow> bool \<Rightarrow> expr \<Rightarrow> expr list \<Rightarrow> string \<Rightarrow> string \<Rightarrow> (string \<times> error option) outcome" where
  "callRepr pkg result e args p t =
     (if (p = ''slices'' \<and> t = ''Contains'') \<or> (p = ''strings'' \<and> t = ''Contains'') then
        (case indexArgs args 0 1 of
           Panics q \<Rightarrow> Panics q
         | Returns (a0, a1) \<Rightarrow>
             if result then
               Returns (genericASTExprToString pkg a0 @ '' contains '' @ genericASTExprToString pkg a1, None)
             else
               Returns (genericASTExprToString pkg a0 @ '' does not contain '' @ genericASTExprToString pkg a1, None))
      else if (p = ''bytes'' \<and> t = ''Equal'') \<or> (p = ''maps'' \<and> t = ''Equal'')
              \<or> (p = ''reflect'' \<and> t = ''DeepEqual'') \<or> (p = ''slices'' \<and> t = ''Equal'') then
        (case indexArgs args 0 1 of
           Panics q \<Rightarrow> Panics q
         | Returns (a0, a1) \<Rightarrow>
             if result then
               Returns (genericASTExprToString pkg a0 @ '' is equal to '' @ genericASTExprToString pkg a1, None)
             else
               Returns (genericASTExprToString pkg a0 @ '' is not equal to '' @ genericASTExprToString pkg a1, None))
      else if p = ''errors'' \<and> t = ''Is'' then
        (if result then
           (case indexArgs args 0 1 of
              Panics q \<Rightarrow> Panics q
            | Returns (a0, a1) \<Rightarrow>
                Returns (genericASTExprToString pkg a0 @ '''s error tree contains '' @ genericASTExprToString pkg a1, None))
         else
           (case indexArgs args 1 0 of
              Panics q \<Rightarrow> Panics q
            | Returns (a1, a0) \<Rightarrow>
                Returns (genericASTExprToString pkg a1 @ '' is not in the error tree of '' @ genericASTExprToString pkg a0, None)))
      else if p = ''errors'' \<and> t = ''As'' then
        (case indexArgs args 0 1 of
           Panics q \<Rightarrow> Panics q
         | Returns (a0, a1) \<Rightarrow>
             if result then
               Returns (genericASTExprToString pkg a0 @ '' can be defined as '' @ typeString (TypeOf pkg a1), None)
             else
               Returns (genericASTExprToString pkg a0 @ '' cannot be defined as '' @ typeString (TypeOf pkg a1), None))
      else
        Returns (''function '' @ genericASTExprToString pkg e @ '' returned '' @ boolString result, None))"

text \<open>
  \<open>customizeASTExprRepr\<close> returns \<open>(message, error)\<close>. The cases follow the type switch:
  binary expression, call, identifier, parenthesis, selector, unary expression, default.
\<close>

fun customizeASTExprRepr :: "package \<Rightarrow> bool \<Rightarrow> expr \<Rightarrow> (string \<times> error option) outcome" where
  "customizeASTExprRepr pkg result (BinaryExpr X op Y) =
     (let x = genericASTExprToString pkg X; y = genericASTExprToString pkg Y in
      if op = LAND \<or> op = LOR then
        (case customizeASTExprRepr pkg result X of
           Panics q \<Rightarrow> Panics q
         | Returns (x', Some err) \<Rightarrow> Returns ('''', Some (UnableToGetLANDLORX err))
         | Returns (x', None) \<Rightarrow>
             (case customizeASTExprRepr pkg result Y of
                Panics q \<Rightarrow> Panics q
              | Returns (y', Some err) \<Rightarrow> Returns ('''', Some (UnableToGetLANDLORY err))
              | Returns (y', None) \<Rightarrow>
                  if op = LAND then
                    Returns (x' @ (if result then '', and '' else '', or '') @ y', None)
                  else if op = LOR then
                    Returns (x' @ (if result then '', or '' else '', and '') @ y', None)
                  else Returns ('''', Some (UnhandledBinaryOperator op))))
      else if op = EQL \<or> op = NEQ then
        (let resultIsEqual = ((op = EQL \<and> result) \<or> (op = NEQ \<and> \<not> result));
             xIsFunc = isExprFunc pkg X;
             xIsFuncRetuningError = isExprFuncReturningOnlyError pkg X;
             yIsNil = isExprNil pkg Y;
             yIsBool = isExprBool pkg Y in
         if xIsFunc \<and> xIsFuncRetuningError \<and> yIsNil \<and> resultIsEqual then
           Returns (x @ '' returned no error'', None)
         else if xIsFunc \<and> xIsFuncRetuningError \<and> yIsNil \<and> \<not> resultIsEqual then
           Returns (x @ '' returned an error'', None)
         else if xIsFunc \<and> yIsNil \<and> resultIsEqual then
           Returns (x @ '' returned nil'', None)
         else if xIsFunc \<and> yIsNil \<and> \<not> resultIsEqual then
           Returns (x @ '' returned not nil'', None)
         else if xIsFunc \<and> yIsBool then
           Returns (x @ '' returned '' @ boolString result, None)
         else if \<not> xIsFunc \<and> yIsNil \<and> resultIsEqual then
           Returns (x @ '' is nil'', None)
         else if \<not> xIsFunc \<and> yIsNil \<and> \<not> resultIsEqual then
           Returns (x @ '' is not nil'', None)
         else if \<not> xIsFunc \<and> yIsBool \<and> resultIsEqual then
           (case mustGetExprBoolValue pkg Y of
              Panics q \<Rightarrow> Panics q
            | Returns v \<Rightarrow> Returns (x @ '' is '' @ boolString v, None))
         else if \<not> xIsFunc \<and> yIsBool \<and> \<not> resultIsEqual then
           (case mustGetExprBoolValue pkg Y of
              Panics q \<Rightarrow> Panics q
            | Returns v \<Rightarrow> Returns (x @ '' is not '' @ boolString v, None))
         else if resultIsEqual then Returns (x @ '' is equal to '' @ y, None)
         else Returns (x @ '' is not equal to '' @ y, None))
      else if (op = GTR \<and> result) \<or> (op = LEQ \<and> \<not> result) then
        Returns (x @ '' is greater than '' @ y, None)
      else if (op = GEQ \<and> \<not> result) \<or> (op = LSS \<and> result) then
        Returns (x @ '' is less than '' @ y, None)
      else if (op = GEQ \<and> result) \<or> (op = LSS \<and> \<not> result) then
        Returns (x @ '' is greater than or equal to '' @ y, None)
      else if (op = GTR \<and> \<not> result) \<or> (op = LEQ \<and> result) then
        Returns (x @ '' is less than or equal to '' @ y, None)
      else Returns ('''', Some (UnhandledBinaryOperator op)))"
| "customizeASTExprRepr pkg result (CallExpr f args) =
     (case f of
        FuncLit p c \<Rightarrow>
          Returns (genericASTExprToString pkg (CallExpr f args) @ '' returned '' @ boolString result, None)
      | Ident p n \<Rightarrow>
          (case getIdentSelector pkg f of
             Panics q \<Rightarrow> Panics q
           | Returns (p, t, Some err) \<Rightarrow>
               Returns ('''', Some (UnableToGetFuncIdentSelector err (CallExpr f args)))
           | Returns (p, t, None) \<Rightarrow> callRepr pkg result (CallExpr f args) args p t)
      | SelectorExpr X Sel \<Rightarrow>
          (case getIdentSelector pkg Sel of
             Panics q \<Rightarrow> Panics q
           | Returns (p, t, Some err) \<Rightarrow>
               Returns ('''', Some (UnableToGetFuncSelSelector err (CallExpr f args)))
           | Returns (p, t, None) \<Rightarrow> callRepr pkg result (CallExpr f args) args p t)
      | _ \<Rightarrow> Returns ('''', Some (UnhandledFunctionType f)))"
| "customizeASTExprRepr pkg result (Ident p n) =
     (case ObjectOf pkg (Ident p n) of
        None \<Rightarrow> Returns ('''', Some (UnexpectedIdentObj None))
      | Some obj \<Rightarrow>
          if okind obj = ObjVar then
            Returns (''var '' @ Name obj @ '' is '' @ boolString result, None)
          else if okind obj = ObjConst then
            (if (case TypeOf pkg (Ident p n) of
                   Some (Basic k) \<Rightarrow> k = Bool \<or> k = UntypedBool
                 | _ \<Rightarrow> False) \<and> ParentIsUniverse obj
             then Returns (''literal '' @ Name obj, None)
             else Returns (''const '' @ Name obj @ '' is '' @ boolString result, None))
          else Returns ('''', Some (UnexpectedIdentObj (Some obj))))"
| "customizeASTExprRepr pkg result (ParenExpr p X) = customizeASTExprRepr pkg result X"
| "customizeASTExprRepr pkg result (SelectorExpr X Sel) =
     Returns (genericASTExprToString pkg (SelectorExpr X Sel) @ '' is '' @ boolString result, None)"
| "customizeASTExprRepr pkg result (UnaryExpr p op X) =
     (if op = NOT then
        (case X of
           CallExpr f args \<Rightarrow> customizeASTExprRepr pkg (\<not> result) X
         | Ident q n \<Rightarrow> customizeASTExprRepr pkg (\<not> result) X
         | ParenExpr q Z \<Rightarrow> customizeASTExprRepr pkg (\<not> result) X
         | UnaryExpr q o2 Z \<Rightarrow> customizeASTExprRepr pkg (\<not> result) X
         | _ \<Rightarrow> Returns ('''', Some (UnhandledUnaryExprOperator X)))
      else if op = ARROW then customizeASTExprRepr pkg result X
      else Returns ('''', Some (UnhandledUnaryOperator op)))"
| "customizeASTExprRepr pkg result NilExpr = Returns ('''', Some (UnhandledExprType NilExpr))"
| "customizeASTExprRepr pkg result (FuncLit p c) = Returns ('''', Some (UnhandledExprType (FuncLit p c)))"
| "customizeASTExprRepr pkg result (OtherNode ty p c) =
     Returns ('''', Some (UnhandledExprType (OtherNode ty p c)))"

section \<open>Package code: the cache of package syntax and the caller's call expression\<close>

text \<open>
  A Go map from import path to package, as an association list: the order of the list is the
  order in which \<open>range\<close> happens to iterate. \<open>mapStore\<close> is the assignment \<open>m[k] = v\<close>.
\<close>

type_synonym pkgs = "(string \<times> package) list"

fun mapStore :: "string \<Rightarrow> package \<Rightarrow> pkgs \<Rightarrow> pkgs" where
  "mapStore k v [] = [(k, v)]"
| "mapStore k v ((k', v') # m) = (if k' = k then (k, v) # m else (k', v') # mapStore k v m)"

text \<open>
  What the process reads from outside: \<open>Caller\<close> is \<open>runtime.Caller\<close> as called from
  \<open>FromBool\<close> (file and line of the frame, \<open>None\<close> when \<open>ok\<close> is false), \<open>CleanDir\<close> is
  \<open>filepath.Clean(filepath.Dir(_))\<close>, \<open>Load\<close> is \<open>packages.Load\<close> with the configuration of
  \<open>ParsePackageAST\<close> (\<open>Inl\<close> its error), \<open>Visit\<close> lists the packages in the order
  \<open>packages.Visit\<close> hands them to its \<open>pre\<close> callback, \<open>Sprintf\<close> is \<open>fmt.Sprintf\<close> on a format
  that the caller of \<open>Assert\<close> supplies.
\<close>

datatype any = VString string | VInt int | VBool bool | VNil | VOther string string string

record world =
  Caller :: "int \<Rightarrow> (string \<times> nat) option"
  CleanDir :: "string \<Rightarrow> string"
  Load :: "string \<Rightarrow> string + package list"
  Visit :: "package list \<Rightarrow> package list"
  Sprintf :: "string \<Rightarrow> any list \<Rightarrow> string"

text \<open>
  The package-level variables: the cache \<open>_astPkgPathToPkg\<close> (\<open>None\<close> is the nil map), the two
  switches of package \<open>test\<close>, and \<open>loads\<close>, the directories handed to \<open>packages.Load\<close> so far,
  oldest first. The mutex \<open>_astLock\<close> serialises the calls; one call is modelled at a time.
\<close>

record globals =
  astPkgPathToPkg :: "(string \<rightharpoonup> pkgs) option"
  loads :: "string list"
  SuccessMessageEnabled :: bool
  flagEnableSuccessMessage :: bool

definition registerPackage :: "pkgs \<Rightarrow> package \<Rightarrow> pkgs" where
  "registerPackage m pkg =
     (let m1 = mapStore (PkgPath pkg) pkg m in
      if take 7 (PkgPath pkg) = ''vendor/'' then mapStore (drop 7 (PkgPath pkg)) pkg m1 else m1)"

definition ParsePackageAST :: "world \<Rightarrow> string \<Rightarrow> globals \<Rightarrow> (error + pkgs) \<times> globals" where
  "ParsePackageAST w pkgDir g =
     (let g1 = g\<lparr>loads := loads g @ [pkgDir]\<rparr> in
      case Load w pkgDir of
        Inl err \<Rightarrow> (Inl (UnableToLoadPackages err), g1)
      | Inr ps \<Rightarrow>
          (let errs = concat (map Errors ps) in
           if length errs > 0 then (Inl (LoadedPackagesContainedErrors errs), g1)
           else (Inr (foldl registerPackage [] (Visit w ps)), g1)))"

text \<open>The map index \<open>_astPkgPathToPkg[pkgDir]\<close>; a nil map has no entry.\<close>

definition cacheLookup :: "globals \<Rightarrow> string \<Rightarrow> pkgs option" where
  "cacheLookup g pkgDir = (case astPkgPathToPkg g of None \<Rightarrow> None | Some c \<Rightarrow> c pkgDir)"

definition GetPackageAST :: "world \<Rightarrow> string \<Rightarrow> globals \<Rightarrow> (error + pkgs) \<times> globals" where
  "GetPackageAST w pkgDir g =
     (case cacheLookup g pkgDir of
        Some found \<Rightarrow> (Inr found, g)
      | None \<Rightarrow>
          (case ParsePackageAST w pkgDir g of
             (Inl err, g1) \<Rightarrow> (Inl (UnableToParseCallerPackage pkgDir err), g1)
           | (Inr pkgPathToPkg, g1) \<Rightarrow>
               (let c = (case astPkgPathToPkg g1 of None \<Rightarrow> Map.empty | Some c \<Rightarrow> c);
                    c1 = (case c pkgDir of None \<Rightarrow> c(pkgDir \<mapsto> []) | Some m \<Rightarrow> c)
                in (Inr pkgPathToPkg, g1\<lparr>astPkgPathToPkg := Some (c1(pkgDir \<mapsto> pkgPathToPkg))\<rparr>))))"

definition InitPackageASTCache :: "world \<Rightarrow> string \<Rightarrow> globals \<Rightarrow> unit outcome \<times> globals" where
  "InitPackageASTCache w pkgDir g =
     (case GetPackageAST w pkgDir g of
        (Inl err, g1) \<Rightarrow> (Panics (FailToInitPackageCache err), g1)
      | (Inr m, g1) \<Rightarrow> (Returns (), g1))"

text \<open>
  \<open>Pos()\<close> of a node. \<open>NilExpr\<close> has none: \<open>token.NoPos\<close> stands for it, and the closure of
  \<open>getASTCallExprAtLine\<close> tests for nil before it asks.
\<close>

fun nodePos :: "expr \<Rightarrow> pos" where
  "nodePos NilExpr = 0"
| "nodePos (BinaryExpr X op Y) = nodePos X"
| "nodePos (CallExpr f args) = nodePos f"
| "nodePos (FuncLit p c) = p"
| "nodePos (Ident p n) = p"
| "nodePos (ParenExpr p X) = p"
| "nodePos (SelectorExpr X Sel) = nodePos X"
| "nodePos (UnaryExpr p op X) = p"
| "nodePos (OtherNode ty p c) = p"

fun findFile :: "package \<Rightarrow> expr list \<Rightarrow> string \<Rightarrow> expr option" where
  "findFile pkg [] callerFile = None"
| "findFile pkg (file # files) callerFile =
     (if fst (Position pkg (nodePos file)) = callerFile then Some file
      else findFile pkg files callerFile)"

fun findCallerPackageAndASTFile :: "pkgs \<Rightarrow> string \<Rightarrow> (package \<times> expr) option" where
  "findCallerPackageAndASTFile [] callerFile = None"
| "findCallerPackageAndASTFile ((path, pkg) # rest) callerFile =
     (case findFile pkg (Syntax pkg) callerFile of
        Some file \<Rightarrow> Some (pkg, file)
      | None \<Rightarrow> findCallerPackageAndASTFile rest callerFile)"

text \<open>
  \<open>ast.Inspect\<close> with the closure of \<open>getASTCallExprAtLine\<close>: the last argument is the captured
  variable \<open>callExpr\<close>. The closure answers false at a nil node and once \<open>callExpr\<close> is set (the
  children are skipped), stores the first call expression that starts on the line, and
  answers true everywhere else (the children are visited in order).
\<close>

fun inspectNode :: "package \<Rightarrow> nat \<Rightarrow> expr \<Rightarrow> expr option \<Rightarrow> expr option" where
  "inspectNode pkg line NilExpr callExpr = callExpr"
| "inspectNode pkg line (CallExpr f args) callExpr =
     (if callExpr \<noteq> None then callExpr
      else if snd (Position pkg (nodePos (CallExpr f args))) \<noteq> line then
        fold (inspectNode pkg line) (f # args) callExpr
      else Some (CallExpr f args))"
| "inspectNode pkg line (BinaryExpr X op Y) callExpr =
     (if callExpr \<noteq> None then callExpr else fold (inspectNode pkg line) [X, Y] callExpr)"
| "inspectNode pkg line (FuncLit p c) callExpr =
     (if callExpr \<noteq> None then callExpr else fold (inspectNode pkg line) c callExpr)"
| "inspectNode pkg line (Ident p n) callExpr = callExpr"
| "inspectNode pkg line (ParenExpr p X) callExpr =
     (if callExpr \<noteq> None then callExpr else inspectNode pkg line X callExpr)"
| "inspectNode pkg line (SelectorExpr X Sel) callExpr =
     (if callExpr \<noteq> None then callExpr else fold (inspectNode pkg line) [X, Sel] callExpr)"
| "inspectNode pkg line (UnaryExpr p op X) callExpr =
     (if callExpr \<noteq> None then callExpr else inspectNode pkg line X callExpr)"
| "inspectNode pkg line (OtherNode ty p c) callExpr =
     (if callExpr \<noteq> None then callExpr else fold (inspectNode pkg line) c callExpr)"

definition getASTCallExprAtLine :: "package \<Rightarrow> expr \<Rightarrow> nat \<Rightarrow> error + expr" where
  "getASTCallExprAtLine pkg file line =
     (case inspectNode pkg line file None of
        None \<Rightarrow> Inl ASTInspectionDidNotReturnANode
      | Some callExpr \<Rightarrow> Inr callExpr)"

definition GetCallerCallExpr :: "pkgs \<Rightarrow> string \<Rightarrow> nat \<Rightarrow> error + (expr \<times> expr \<times> package)" where
  "GetCallerCallExpr ps callerFile callerLine =
     (case findCallerPackageAndASTFile ps callerFile of
        None \<Rightarrow> Inl (UnableToFindASTFileAndPackage callerFile)
      | Some (pkg, file) \<Rightarrow>
          (case getASTCallExprAtLine pkg file callerLine of
             Inl err \<Rightarrow> Inl (UnableToGetCallExpression err)
           | Inr e \<Rightarrow> Inr (e, file, pkg)))"

section \<open>Package message: FromBool\<close>

text \<open>The field \<open>Args\<close> of a call expression.\<close>

fun callArgs :: "expr \<Rightarrow> expr list" where
  "callArgs (CallExpr f args) = args"
| "callArgs _ = []"

text \<open>
  The \<open>switch\<close> of \<open>FromBool\<close> on the number of arguments of the call expression \<open>e\<close>: the
  argument to explain, or the error of the default case.
\<close>

definition selectArg :: "expr \<Rightarrow> error + expr" where
  "selectArg e =
     (let l = length (callArgs e) in
      if l = 1 then Inr (callArgs e ! 0)
      else if l \<ge> 2 then Inr (callArgs e ! 1)
      else Inl (UnexpectedCallExprArgumentsNumber l))"

text \<open>
  The last statements of \<open>FromBool\<close>: the rewriter on the chosen argument \<open>arg\<close> of the call
  \<open>e\<close>, and the text of the whole call when the rewriter fails.
\<close>

definition explainArg :: "package \<Rightarrow> bool \<Rightarrow> expr \<Rightarrow> expr \<Rightarrow> (string \<times> error option) outcome" where
  "explainArg pkg result e arg =
     (case customizeASTExprRepr pkg result arg of
        Panics q \<Rightarrow> Panics q
      | Returns (msg, Some err) \<Rightarrow>
          Returns (genericASTExprToString pkg e, Some (UnableToGetArgRepr err))
      | Returns (msg, None) \<Rightarrow> Returns (msg, None))"

definition FromBool ::
  "world \<Rightarrow> int \<Rightarrow> bool \<Rightarrow> globals \<Rightarrow> (string \<times> error option) outcome \<times> globals" where
  "FromBool w callerStackIndex result g =
     (case Caller w (callerStackIndex + 1) of
        None \<Rightarrow> (Returns ('''', Some NoCallerInformation), g)
      | Some (callerFile, callerLine) \<Rightarrow>
          (case GetPackageAST w (CleanDir w callerFile) g of
             (Inl err, g1) \<Rightarrow> (Returns ('''', Some (UnableToGetPackageAST err)), g1)
           | (Inr pkgPathToPkg, g1) \<Rightarrow>
               (case GetCallerCallExpr pkgPathToPkg callerFile callerLine of
                  Inl err \<Rightarrow> (Returns ('''', Some (UnableToGetCallExprFromCaller err)), g1)
                | Inr (e, file, pkg) \<Rightarrow>
                    (case selectArg e of
                       Inl err \<Rightarrow> (Returns ('''', Some err), g1)
                     | Inr arg \<Rightarrow> (explainArg pkg result e arg, g1)))))"

section \<open>Package test: Assert, Require and logResult\<close>

text \<open>
  The values passed as \<open>msgAndArgs ...any\<close>: strings, integers, booleans, nil, and
  \<open>VOther ty v el\<close> for a value of any other dynamic type \<open>ty\<close> (a named string type too), which
  \<open>%v\<close> prints as \<open>v\<close> and, as an element of a slice, as \<open>el\<close>.
\<close>

fun natString :: "nat \<Rightarrow> string" where
  "natString n =
     (if n < 10 then [''0123456789'' ! n] else natString (n div 10) @ [''0123456789'' ! (n mod 10)])"

declare natString.simps [simp del]

definition intString :: "int \<Rightarrow> string" where
  "intString i = (if i < 0 then ''-'' @ natString (nat (- i)) else natString (nat i))"

text \<open>The verb \<open>%v\<close> of package \<open>fmt\<close> on one value, on an element of a slice, and on a slice.\<close>

fun fmt_v :: "any \<Rightarrow> string" where
  "fmt_v (VString s) = s"
| "fmt_v (VInt i) = intString i"
| "fmt_v (VBool b) = boolString b"
| "fmt_v VNil = ''<nil>''"
| "fmt_v (VOther ty v el) = v"

fun fmt_v_elem :: "any \<Rightarrow> string" where
  "fmt_v_elem (VOther ty v el) = el"
| "fmt_v_elem a = fmt_v a"

fun joinSpace :: "string list \<Rightarrow> string" where
  "joinSpace [] = []"
| "joinSpace [s] = s"
| "joinSpace (s # t # ss) = s @ '' '' @ joinSpace (t # ss)"

definition fmt_v_slice :: "any list \<Rightarrow> string" where
  "fmt_v_slice xs = ''['' @ joinSpace (map fmt_v_elem xs) @ '']''"

text \<open>
  \<open>TestingT\<close> is the record of the calls made on it, oldest first (what the spy of package
  \<open>double\<close> keeps). \<open>Logf\<close> is recorded with its format and arguments.
\<close>

datatype logarg = ArgString string | ArgError error

datatype tcall = Helper | Fail | FailNow | Logf string "logarg list"

text \<open>The \<open>switch\<close> of \<open>logResult\<close> that appends the caller's message to \<open>msg\<close>.\<close>

definition appendMsgAndArgs :: "world \<Rightarrow> string \<Rightarrow> any list \<Rightarrow> string" where
  "appendMsgAndArgs w msg msgAndArgs =
     (let l = length msgAndArgs in
      if l = 1 then msg @ '' ['' @ fmt_v (msgAndArgs ! 0) @ '']''
      else if l > 1 then
        (case msgAndArgs ! 0 of
           VString format \<Rightarrow> msg @ '' ['' @ Sprintf w format (tl msgAndArgs) @ '']''
         | _ \<Rightarrow> msg @ '' '' @ fmt_v_slice msgAndArgs)
      else msg)"

text \<open>The last statement of \<open>logResult\<close>: nothing is logged for an empty message.\<close>

definition logMsg :: "tcall list \<Rightarrow> bool \<Rightarrow> string \<Rightarrow> tcall list" where
  "logMsg t result msg =
     (if msg \<noteq> '''' then
        (if result then t @ [Logf ''Success: %s'' [ArgString msg]]
         else t @ [Logf ''Error: %s'' [ArgString msg]])
      else t)"

text \<open>The first statement after \<open>t.Helper()\<close>: an empty string in front is not displayed.\<close>

definition dropEmptyMessage :: "any list \<Rightarrow> any list" where
  "dropEmptyMessage msgAndArgs =
     (if length msgAndArgs > 0 \<and> msgAndArgs ! 0 = VString '''' then tl msgAndArgs else msgAndArgs)"

definition logResult ::
  "world \<Rightarrow> tcall list \<Rightarrow> bool \<Rightarrow> int \<Rightarrow> any list \<Rightarrow> globals \<Rightarrow> tcall list outcome \<times> globals" where
  "logResult w t result callerStackIndex msgAndArgs g =
     (let t1 = t @ [Helper];
          msgAndArgs1 = dropEmptyMessage msgAndArgs in
      if (result \<and> (SuccessMessageEnabled g \<or> flagEnableSuccessMessage g)) \<or> \<not> result then
        (case FromBool w (callerStackIndex + 1) result g of
           (Panics q, g1) \<Rightarrow> (Panics q, g1)
         | (Returns (msg, err), g1) \<Rightarrow>
             (let t2 = (case err of
                          Some e \<Rightarrow>
                            t1 @ [Logf ''krostar/test internal failure: unable to get assertion message: %v''
                                    [ArgError e]]
                        | None \<Rightarrow> t1)
              in (Returns (logMsg t2 result (appendMsgAndArgs w msg msgAndArgs1)), g1)))
      else (Returns (logMsg t1 result ''''), g))"

definition Assert ::
  "world \<Rightarrow> tcall list \<Rightarrow> bool \<Rightarrow> any list \<Rightarrow> globals \<Rightarrow> (tcall list \<times> bool) outcome \<times> globals" where
  "Assert w t result msgAndArgs g =
     (case logResult w (t @ [Helper]) result 1 msgAndArgs g of
        (Panics q, g1) \<Rightarrow> (Panics q, g1)
      | (Returns t1, g1) \<Rightarrow> (Returns (if \<not> result then t1 @ [Fail] else t1, result), g1))"

definition Require ::
  "world \<Rightarrow> tcall list \<Rightarrow> bool \<Rightarrow> any list \<Rightarrow> globals \<Rightarrow> tcall list outcome \<times> globals" where
  "Require w t result msgAndArgs g =
     (case logResult w (t @ [Helper]) result 1 msgAndArgs g of
        (Panics q, g1) \<Rightarrow> (Panics q, g1)
      | (Returns t1, g1) \<Rightarrow> (Returns (if \<not> result then t1 @ [FailNow] else t1), g1))"

subsection \<open>The file assert.go\<close>

text \<open>
  \<open>assert.go\<close> holds \<open>Assert\<close> and \<open>Require\<close> over \<open>eval\<close>: the empty first message is dropped
  by \<open>Assert\<close> and \<open>Require\<close> themselves, and \<open>eval\<close> asserts that the first of several messages
  is a string.
\<close>

definition eval_assert_go ::
  "world \<Rightarrow> tcall list \<Rightarrow> bool \<Rightarrow> int \<Rightarrow> any list \<Rightarrow> globals \<Rightarrow> (tcall list \<times> bool) outcome \<times> globals" where
  "eval_assert_go w t result callerStackIndex msgAndArgs g =
     (let t1 = t @ [Helper] in
      if \<not> result \<or> (result \<and> SuccessMessageEnabled g) then
        (case FromBool w (callerStackIndex + 1) result g of
           (Panics q, g1) \<Rightarrow> (Panics q, g1)
         | (Returns (msg, err), g1) \<Rightarrow>
             (let t2 = (case err of
                          Some e \<Rightarrow>
                            t1 @ [Logf ''krostar/test internal failure: unable to get assertion message: %v''
                                    [ArgError e]]
                        | None \<Rightarrow> t1);
                  l = length msgAndArgs
              in if l = 1 then
                   (Returns (logMsg t2 result (msg @ '' ['' @ fmt_v (msgAndArgs ! 0) @ '']''), result), g1)
                 else if l > 1 then
                   (case msgAndArgs ! 0 of
                      VString format \<Rightarrow>
                        (Returns (logMsg t2 result
                                    (msg @ '' ['' @ Sprintf w format (tl msgAndArgs) @ '']''), result), g1)
                    | _ \<Rightarrow> (Panics InterfaceConversion, g1))
                 else (Returns (logMsg t2 result msg, result), g1)))
      else (Returns (logMsg t1 result '''', result), g))"

definition Assert_assert_go ::
  "world \<Rightarrow> tcall list \<Rightarrow> bool \<Rightarrow> any list \<Rightarrow> globals \<Rightarrow> (tcall list \<times> bool) outcome \<times> globals" where
  "Assert_assert_go w t result msgAndArgs g =
     eval_assert_go w (t @ [Helper]) result 1 (dropEmptyMessage msgAndArgs) g"

definition Require_assert_go ::
  "world \<Rightarrow> tcall list \<Rightarrow> bool \<Rightarrow> any list \<Rightarrow> globals \<Rightarrow> tcall list outcome \<times> globals" where
  "Require_assert_go w t result msgAndArgs g =
     (case eval_assert_go w (t @ [Helper]) result 1 (dropEmptyMessage msgAndArgs) g of
        (Panics q, g1) \<Rightarrow> (Panics q, g1)
      | (Returns (t1, r), g1) \<Rightarrow> (Returns (if \<not> r then t1 @ [FailNow] else t1), g1))"

section \<open>A test file as data\<close>

text \<open>
  A package with one file, \<open>/src/pkg/x_test.go\<close>, used to run the functions above on concrete
  input. Positions are \<open>100 * line + column\<close>. The file reads
  \<^verbatim>\<open>
   1  helper()
   2  test.Assert(t, a && b)
   3  test.Assert(t, false, msg)
   4  test.Assert(check(t))
   5  test.Assert(t, T{})
   6  test.Assert(t, b1 == b2)
   7  test.Assert(t, errors.Is(errw, err))
   8  test.Assert(t, b1 == true)
   9  test.Assert(t, n1 > n2)
  \<close>
  with \<open>a\<close>, \<open>b\<close>, \<open>b1\<close>, \<open>b2\<close> boolean variables, \<open>n1\<close>, \<open>n2\<close> integers, \<open>err\<close>, \<open>errw\<close> errors.
\<close>

fun tokenText :: "token \<Rightarrow> string" where
  "tokenText LAND = ''&&''"
| "tokenText LOR = ''||''"
| "tokenText EQL = ''==''"
| "tokenText NEQ = ''!=''"
| "tokenText GTR = ''>''"
| "tokenText GEQ = ''>=''"
| "tokenText LSS = ''<''"
| "tokenText LEQ = ''<=''"
| "tokenText NOT = ''!''"
| "tokenText ARROW = ''<-''"
| "tokenText (OtherToken s) = s"

fun joinComma :: "string list \<Rightarrow> string" where
  "joinComma [] = []"
| "joinComma [s] = s"
| "joinComma (s # t # ss) = s @ '', '' @ joinComma (t # ss)"

text \<open>The printer of the test file: source text of the shapes it uses, \<open>T{}\<close> for the literal.\<close>

fun exprText :: "expr \<Rightarrow> string" where
  "exprText NilExpr = []"
| "exprText (BinaryExpr X op Y) = exprText X @ '' '' @ tokenText op @ '' '' @ exprText Y"
| "exprText (CallExpr f args) = exprText f @ ''('' @ joinComma (map exprText args) @ '')''"
| "exprText (FuncLit p c) = ''func() {}''"
| "exprText (Ident p n) = n"
| "exprText (ParenExpr p X) = ''('' @ exprText X @ '')''"
| "exprText (SelectorExpr X Sel) = exprText X @ ''.'' @ exprText Sel"
| "exprText (UnaryExpr p op X) = tokenText op @ exprText X"
| "exprText (OtherNode ty p c) = ''T{}''"

fun testObjectOf :: "expr \<Rightarrow> object option" where
  "testObjectOf (Ident p n) =
     (if n = ''nil'' then Some (Object ObjNil n None True)
      else if n = ''true'' \<or> n = ''false'' then Some (Object ObjConst n None True)
      else if n = ''Is'' then Some (Object (ObjOther ''*types.Func'') n (Some ''errors'') False)
      else if n = ''check'' \<or> n = ''helper'' then
        Some (Object (ObjOther ''*types.Func'') n (Some ''example.org/pkg'') False)
      else if n = ''errors'' \<or> n = ''test'' then Some (Object (ObjOther ''*types.PkgName'') n (Some ''example.org/pkg'') False)
      else Some (Object ObjVar n (Some ''example.org/pkg'') False))"
| "testObjectOf _ = None"

fun testTypeOf :: "expr \<Rightarrow> gotype option" where
  "testTypeOf (Ident p n) =
     (if n = ''true'' \<or> n = ''false'' then Some (Basic UntypedBool)
      else if n = ''a'' \<or> n = ''b'' \<or> n = ''b1'' \<or> n = ''b2'' then Some (Basic Bool)
      else if n = ''err'' \<or> n = ''errw'' then Some UniverseError
      else if n = ''nil'' then Some (Basic UntypedNil)
      else if n = ''n1'' \<or> n = ''n2'' then Some (Basic (OtherKind ''int''))
      else None)"
| "testTypeOf (BinaryExpr X op Y) = Some (Basic UntypedBool)"
| "testTypeOf _ = None"

fun testTypes :: "expr \<Rightarrow> type_and_value option" where
  "testTypes (Ident p n) =
     (if n = ''true'' then Some \<lparr>IsValue = True, Value = Some (ConstBool True)\<rparr>
      else if n = ''false'' then Some \<lparr>IsValue = True, Value = Some (ConstBool False)\<rparr>
      else if n = ''errors'' \<or> n = ''test'' then None
      else Some \<lparr>IsValue = True, Value = None\<rparr>)"
| "testTypes _ = None"

definition assertCall :: "nat \<Rightarrow> expr list \<Rightarrow> expr" where
  "assertCall line args =
     OtherNode ''*ast.ExprStmt'' (100 * line + 1)
       [CallExpr (SelectorExpr (Ident (100 * line + 1) ''test'') (Ident (100 * line + 6) ''Assert'')) args]"

definition testFile :: expr where
  "testFile = OtherNode ''*ast.File'' 1
     [OtherNode ''*ast.ExprStmt'' 101 [CallExpr (Ident 101 ''helper'') []],
      assertCall 2 [Ident 213 ''t'', BinaryExpr (Ident 216 ''a'') LAND (Ident 221 ''b'')],
      assertCall 3 [Ident 313 ''t'', Ident 316 ''false'', Ident 323 ''msg''],
      assertCall 4 [CallExpr (Ident 413 ''check'') [Ident 419 ''t'']],
      assertCall 5 [Ident 513 ''t'', OtherNode ''*ast.CompositeLit'' 516 []],
      assertCall 6 [Ident 613 ''t'', BinaryExpr (Ident 616 ''b1'') EQL (Ident 622 ''b2'')],
      assertCall 7 [Ident 713 ''t'',
        CallExpr (SelectorExpr (Ident 716 ''errors'') (Ident 723 ''Is''))
          [Ident 726 ''errw'', Ident 732 ''err'']],
      assertCall 8 [Ident 813 ''t'', BinaryExpr (Ident 816 ''b1'') EQL (Ident 822 ''true'')],
      assertCall 9 [Ident 913 ''t'', BinaryExpr (Ident 916 ''n1'') GTR (Ident 921 ''n2'')]]"

definition testPkg :: package where
  "testPkg = \<lparr>PkgPath = ''example.org/pkg'', Errors = [], Syntax = [testFile],
     Position = (\<lambda>p. (''/src/pkg/x_test.go'', p div 100)),
     format_Node = (\<lambda>e. Inr (exprText e)),
     TypeOf = testTypeOf, ObjectOf = testObjectOf, Types = testTypes\<rparr>"

text \<open>
  The world of the test file: frame \<open>n\<close> of the stack is line \<open>n\<close> of the file for
  \<open>1 \<le> n \<le> 10\<close> (line 10 is empty) and there is no deeper frame; only \<open>/src/pkg\<close> loads; the only format that
  is spelled out is \<open>%s\<close> on one string.
\<close>

definition testWorld :: world where
  "testWorld = \<lparr>
     Caller = (\<lambda>n. if 1 \<le> n \<and> n \<le> 10 then Some (''/src/pkg/x_test.go'', nat n) else None),
     CleanDir = (\<lambda>f. ''/src/pkg''),
     Load = (\<lambda>d. if d = ''/src/pkg'' then Inr [testPkg] else Inl ''no such directory''),
     Visit = (\<lambda>ps. ps),
     Sprintf = (\<lambda>f args. case (f, args) of (''%s'', [VString s]) \<Rightarrow> s | _ \<Rightarrow> f)\<rparr>"

text \<open>The process at start: nothing cached, nothing loaded, success messages off.\<close>

definition startGlobals :: globals where
  "startGlobals = \<lparr>astPkgPathToPkg = None, loads = [], SuccessMessageEnabled = False,
     flagEnableSuccessMessage = False\<rparr>"

text \<open>A world in which no directory loads.\<close>

definition brokenWorld :: world where
  "brokenWorld = testWorld\<lparr>Load := (\<lambda>d. Inl ''no such directory'')\<rparr>"

text \<open>The process after the package of the test file has been loaded once.\<close>

definition loadedGlobals :: globals where
  "loadedGlobals = \<lparr>astPkgPathToPkg = Some [''/src/pkg'' \<mapsto> [(''example.org/pkg'', testPkg)]],
     loads = [''/src/pkg''], SuccessMessageEnabled = False, flagEnableSuccessMessage = False\<rparr>"

section \<open>The test file, evaluated\<close>

lemma testPkg_fields:
  "PkgPath testPkg = ''example.org/pkg''" "Errors testPkg = []" "Syntax testPkg = [testFile]"
  "Position testPkg p = (''/src/pkg/x_test.go'', p div 100)"
  "format_Node testPkg e = Inr (exprText e)"
  "TypeOf testPkg = testTypeOf" "ObjectOf testPkg = testObjectOf" "Types testPkg = testTypes"
  by (simp_all add: testPkg_def)

lemma testPkg_text: "genericASTExprToString testPkg e = exprText e"
  by (simp add: genericASTExprToString_def testPkg_fields)

lemma testWorld_fields:
  "Caller testWorld n = (if 1 \<le> n \<and> n \<le> 10 then Some (''/src/pkg/x_test.go'', nat n) else None)"
  "CleanDir testWorld f = ''/src/pkg''"
  "Load testWorld ''/src/pkg'' = Inr [testPkg]"
  "Visit testWorld ps = ps"
  by (simp_all add: testWorld_def)

lemma brokenWorld_fields:
  "Caller brokenWorld n = (if 1 \<le> n \<and> n \<le> 10 then Some (''/src/pkg/x_test.go'', nat n) else None)"
  "CleanDir brokenWorld f = ''/src/pkg''"
  "Load brokenWorld d = Inl ''no such directory''"
  by (simp_all add: brokenWorld_def testWorld_def)

lemma testWorld_GetPackageAST:
  "GetPackageAST testWorld ''/src/pkg'' startGlobals = (Inr [(''example.org/pkg'', testPkg)], loadedGlobals)"
  by (simp add: GetPackageAST_def cacheLookup_def ParsePackageAST_def startGlobals_def loadedGlobals_def
      testWorld_fields testPkg_fields registerPackage_def)

lemma brokenWorld_GetPackageAST:
  "GetPackageAST brokenWorld ''/src/pkg'' startGlobals =
     (Inl (UnableToParseCallerPackage ''/src/pkg'' (UnableToLoadPackages ''no such directory'')),
      startGlobals\<lparr>loads := [''/src/pkg'']\<rparr>)"
  by (simp add: GetPackageAST_def cacheLookup_def ParsePackageAST_def startGlobals_def brokenWorld_fields)

lemma testFile_find:
  "findCallerPackageAndASTFile [(''example.org/pkg'', testPkg)] ''/src/pkg/x_test.go'' = Some (testPkg, testFile)"
  by (simp add: testPkg_fields testFile_def)


lemma testFile_line1:
  "GetCallerCallExpr [(''example.org/pkg'', testPkg)] ''/src/pkg/x_test.go'' 1 =
     Inr (CallExpr (Ident 101 ''helper'') [], testFile, testPkg)"
  unfolding GetCallerCallExpr_def testFile_find getASTCallExprAtLine_def
  by (simp add: testFile_def assertCall_def testPkg_fields)

lemma testFile_line2:
  "GetCallerCallExpr [(''example.org/pkg'', testPkg)] ''/src/pkg/x_test.go'' 2 =
     Inr (CallExpr (SelectorExpr (Ident 201 ''test'') (Ident 206 ''Assert''))
            [Ident 213 ''t'', BinaryExpr (Ident 216 ''a'') LAND (Ident 221 ''b'')], testFile, testPkg)"
  unfolding GetCallerCallExpr_def testFile_find getASTCallExprAtLine_def
  by (simp add: testFile_def assertCall_def testPkg_fields)

lemma testFile_line3:
  "GetCallerCallExpr [(''example.org/pkg'', testPkg)] ''/src/pkg/x_test.go'' 3 =
     Inr (CallExpr (SelectorExpr (Ident 301 ''test'') (Ident 306 ''Assert''))
            [Ident 313 ''t'', Ident 316 ''false'', Ident 323 ''msg''], testFile, testPkg)"
  unfolding GetCallerCallExpr_def testFile_find getASTCallExprAtLine_def
  by (simp add: testFile_def assertCall_def testPkg_fields)

lemma testFile_line4:
  "GetCallerCallExpr [(''example.org/pkg'', testPkg)] ''/src/pkg/x_test.go'' 4 =
     Inr (CallExpr (SelectorExpr (Ident 401 ''test'') (Ident 406 ''Assert''))
            [CallExpr (Ident 413 ''check'') [Ident 419 ''t'']], testFile, testPkg)"
  unfolding GetCallerCallExpr_def testFile_find getASTCallExprAtLine_def
  by (simp add: testFile_def assertCall_def testPkg_fields)

lemma testFile_line5:
  "GetCallerCallExpr [(''example.org/pkg'', testPkg)] ''/src/pkg/x_test.go'' 5 =
     Inr (CallExpr (SelectorExpr (Ident 501 ''test'') (Ident 506 ''Assert''))
            [Ident 513 ''t'', OtherNode ''*ast.CompositeLit'' 516 []], testFile, testPkg)"
  unfolding GetCallerCallExpr_def testFile_find getASTCallExprAtLine_def
  by (simp add: testFile_def assertCall_def testPkg_fields)

lemma testFile_line10:
  "GetCallerCallExpr [(''example.org/pkg'', testPkg)] ''/src/pkg/x_test.go'' 10 =
     Inl (UnableToGetCallExpression ASTInspectionDidNotReturnANode)"
  unfolding GetCallerCallExpr_def testFile_find getASTCallExprAtLine_def
  by (simp add: testFile_def assertCall_def testPkg_fields)

lemma testPkg_idents:
  "customizeASTExprRepr testPkg True (Ident 216 ''a'') = Returns (''var a is true'', None)"
  "customizeASTExprRepr testPkg True (Ident 221 ''b'') = Returns (''var b is true'', None)"
  "customizeASTExprRepr testPkg False (Ident 216 ''a'') = Returns (''var a is false'', None)"
  "customizeASTExprRepr testPkg False (Ident 221 ''b'') = Returns (''var b is false'', None)"
  by (simp_all add: testPkg_fields boolString_def)

section \<open>The rewriter\<close>

text \<open>
  Claim C1. For a logical AND \<open>a && b\<close> both operands are rendered recursively under the
  polarity of the whole expression, and the two renderings are joined with \<open>", and "\<close> when
  the polarity is true and with \<open>", or "\<close> when it is false; for \<open>a || b\<close> the joiners are
  swapped.
\<close>

theorem land_lor_joiners:
  "customizeASTExprRepr pkg result a = Returns (x, None) \<Longrightarrow>
   customizeASTExprRepr pkg result b = Returns (y, None) \<Longrightarrow>
   customizeASTExprRepr pkg result (BinaryExpr a LAND b) =
     Returns (x @ (if result then '', and '' else '', or '') @ y, None) \<and>
   customizeASTExprRepr pkg result (BinaryExpr a LOR b) =
     Returns (x @ (if result then '', or '' else '', and '') @ y, None)"
  by simp

text \<open>The joiners on \<open>a && b\<close> and \<open>a || b\<close> of the test file, under both polarities.\<close>

theorem land_lor_joiners_witness:
  "customizeASTExprRepr testPkg True (BinaryExpr (Ident 216 ''a'') LAND (Ident 221 ''b'')) =
     Returns (''var a is true, and var b is true'', None) \<and>
   customizeASTExprRepr testPkg True (BinaryExpr (Ident 216 ''a'') LOR (Ident 221 ''b'')) =
     Returns (''var a is true, or var b is true'', None) \<and>
   customizeASTExprRepr testPkg False (BinaryExpr (Ident 216 ''a'') LAND (Ident 221 ''b'')) =
     Returns (''var a is false, or var b is false'', None) \<and>
   customizeASTExprRepr testPkg False (BinaryExpr (Ident 216 ''a'') LOR (Ident 221 ''b'')) =
     Returns (''var a is false, and var b is false'', None)"
  using land_lor_joiners [OF testPkg_idents(1) testPkg_idents(2)]
    land_lor_joiners [OF testPkg_idents(3) testPkg_idents(4)]
  by simp

text \<open>
  Claim C2. For an ordering comparison the wording combines operator and polarity:
  \<open>>\<close> true and \<open><=\<close> false give "is greater than"; \<open><\<close> true and \<open>>=\<close> false give
  "is less than"; \<open>>=\<close> true and \<open><\<close> false give "is greater than or equal to"; \<open><=\<close> true
  and \<open>>\<close> false give "is less than or equal to". So an expression rendered with polarity
  true and its logical negation rendered with polarity false agree.
\<close>

theorem ordering_wording:
  "customizeASTExprRepr pkg True (BinaryExpr x GTR y) =
     Returns (genericASTExprToString pkg x @ '' is greater than '' @ genericASTExprToString pkg y, None) \<and>
   customizeASTExprRepr pkg False (BinaryExpr x LEQ y) =
     Returns (genericASTExprToString pkg x @ '' is greater than '' @ genericASTExprToString pkg y, None) \<and>
   customizeASTExprRepr pkg True (BinaryExpr x LSS y) =
     Returns (genericASTExprToString pkg x @ '' is less than '' @ genericASTExprToString pkg y, None) \<and>
   customizeASTExprRepr pkg False (BinaryExpr x GEQ y) =
     Returns (genericASTExprToString pkg x @ '' is less than '' @ genericASTExprToString pkg y, None) \<and>
   customizeASTExprRepr pkg True (BinaryExpr x GEQ y) =
     Returns (genericASTExprToString pkg x @ '' is greater than or equal to '' @ genericASTExprToString pkg y, None) \<and>
   customizeASTExprRepr pkg False (BinaryExpr x LSS y) =
     Returns (genericASTExprToString pkg x @ '' is greater than or equal to '' @ genericASTExprToString pkg y, None) \<and>
   customizeASTExprRepr pkg True (BinaryExpr x LEQ y) =
     Returns (genericASTExprToString pkg x @ '' is less than or equal to '' @ genericASTExprToString pkg y, None) \<and>
   customizeASTExprRepr pkg False (BinaryExpr x GTR y) =
     Returns (genericASTExprToString pkg x @ '' is less than or equal to '' @ genericASTExprToString pkg y, None) \<and>
   customizeASTExprRepr pkg True (BinaryExpr x GTR y) = customizeASTExprRepr pkg False (BinaryExpr x LEQ y) \<and>
   customizeASTExprRepr pkg True (BinaryExpr x LSS y) = customizeASTExprRepr pkg False (BinaryExpr x GEQ y) \<and>
   customizeASTExprRepr pkg True (BinaryExpr x GEQ y) = customizeASTExprRepr pkg False (BinaryExpr x LSS y) \<and>
   customizeASTExprRepr pkg True (BinaryExpr x LEQ y) = customizeASTExprRepr pkg False (BinaryExpr x GTR y)"
  by (simp add: Let_def)

text \<open>The wording on \<open>n1 > n2\<close> of the test file, under both polarities.\<close>

theorem ordering_wording_witness:
  "customizeASTExprRepr testPkg True (BinaryExpr (Ident 916 ''n1'') GTR (Ident 921 ''n2'')) =
     Returns (''n1 is greater than n2'', None) \<and>
   customizeASTExprRepr testPkg False (BinaryExpr (Ident 916 ''n1'') GTR (Ident 921 ''n2'')) =
     Returns (''n1 is less than or equal to n2'', None)"
  using ordering_wording [of testPkg "Ident 916 ''n1''" "Ident 921 ''n2''"]
  by (simp add: testPkg_text)

text \<open>
  Equality against a boolean whose left side is not a call: with a constant on the right the
  value of the constant is substituted, and whatever \<open>mustGetExprBoolValue\<close> panics with is
  the outcome of the rewriter.
\<close>

lemma equality_with_boolean_constant:
  "\<not> isExprFunc pkg X \<Longrightarrow> \<not> isExprNil pkg Y \<Longrightarrow> isExprBool pkg Y \<Longrightarrow>
   mustGetExprBoolValue pkg Y = Returns v \<Longrightarrow>
   customizeASTExprRepr pkg True (BinaryExpr X EQL Y) =
     Returns (genericASTExprToString pkg X @ '' is '' @ boolString v, None) \<and>
   customizeASTExprRepr pkg False (BinaryExpr X NEQ Y) =
     Returns (genericASTExprToString pkg X @ '' is '' @ boolString v, None) \<and>
   customizeASTExprRepr pkg False (BinaryExpr X EQL Y) =
     Returns (genericASTExprToString pkg X @ '' is not '' @ boolString v, None) \<and>
   customizeASTExprRepr pkg True (BinaryExpr X NEQ Y) =
     Returns (genericASTExprToString pkg X @ '' is not '' @ boolString v, None)"
  by (simp add: Let_def)

lemma equality_with_boolean_not_constant:
  "\<not> isExprFunc pkg X \<Longrightarrow> \<not> isExprNil pkg Y \<Longrightarrow> isExprBool pkg Y \<Longrightarrow>
   mustGetExprBoolValue pkg Y = Panics q \<Longrightarrow> op = EQL \<or> op = NEQ \<Longrightarrow>
   customizeASTExprRepr pkg result (BinaryExpr X op Y) = Panics q"
  by (auto simp add: Let_def)

text \<open>
  Claim C3. For \<open>x == y\<close> or \<open>x != y\<close> with \<open>x\<close> not a call and \<open>y\<close> of boolean type the
  rewriter is to return a rendering without panicking, with the generic "is equal to" form
  when \<open>y\<close> is not a constant. On \<open>b1 == b2\<close> of the test file, two boolean variables, the
  rewriter panics in \<open>mustGetExprBoolValue\<close> instead.
\<close>

theorem boolean_variable_comparison_panics:
  "customizeASTExprRepr testPkg True (BinaryExpr (Ident 616 ''b1'') EQL (Ident 622 ''b2'')) =
     Panics (TypeNotFoundOrValueIsNotABool (Ident 622 ''b2'')) \<and>
   customizeASTExprRepr testPkg False (BinaryExpr (Ident 616 ''b1'') NEQ (Ident 622 ''b2'')) =
     Panics (TypeNotFoundOrValueIsNotABool (Ident 622 ''b2''))"
  by (simp add: testPkg_fields isExprBool_def mustGetExprBoolValue_def Let_def)

text \<open>
  Claim C6. A call \<open>errors.Is(errw, err)\<close> is rendered "errw's error tree contains err" under
  polarity true (first argument first) and "err is not in the error tree of errw" under
  polarity false (second argument first).
\<close>

theorem errors_Is_wording:
  "ObjectOf pkg (Ident p n) = Some obj \<Longrightarrow> PkgPathOf obj = Some ''errors'' \<Longrightarrow> Name obj = ''Is'' \<Longrightarrow>
   customizeASTExprRepr pkg True (CallExpr (SelectorExpr X (Ident p n)) [errw, err]) =
     Returns (genericASTExprToString pkg errw @ '''s error tree contains '' @ genericASTExprToString pkg err, None) \<and>
   customizeASTExprRepr pkg False (CallExpr (SelectorExpr X (Ident p n)) [errw, err]) =
     Returns (genericASTExprToString pkg err @ '' is not in the error tree of '' @ genericASTExprToString pkg errw, None)"
  by (simp add: getIdentSelector_def callRepr_def indexArgs_def)

text \<open>The two sentences on \<open>errors.Is(errw, err)\<close> of the test file.\<close>

theorem errors_Is_wording_witness:
  "customizeASTExprRepr testPkg True
     (CallExpr (SelectorExpr (Ident 716 ''errors'') (Ident 723 ''Is'')) [Ident 726 ''errw'', Ident 732 ''err'']) =
     Returns (''errw's error tree contains err'', None) \<and>
   customizeASTExprRepr testPkg False
     (CallExpr (SelectorExpr (Ident 716 ''errors'') (Ident 723 ''Is'')) [Ident 726 ''errw'', Ident 732 ''err'']) =
     Returns (''err is not in the error tree of errw'', None)"
  using errors_Is_wording [of testPkg 723 "''Is''" "Object (ObjOther ''*types.Func'') ''Is'' (Some ''errors'') False"
      "Ident 716 ''errors''" "Ident 726 ''errw''" "Ident 732 ''err''"]
  by (simp add: testPkg_fields testPkg_text)

text \<open>
  Claim C7. A parenthesized expression and a receive expression are rendered as their
  operand at the same polarity; a negation of a call, an identifier, a parenthesized or a
  unary expression is rendered as its operand at the flipped polarity; a negation of any
  other shape is an error.
\<close>

theorem wrappers_and_negation:
  "customizeASTExprRepr pkg result (ParenExpr p e) = customizeASTExprRepr pkg result e \<and>
   customizeASTExprRepr pkg result (UnaryExpr p ARROW e) = customizeASTExprRepr pkg result e \<and>
   customizeASTExprRepr pkg result (UnaryExpr p NOT (CallExpr f args)) =
     customizeASTExprRepr pkg (\<not> result) (CallExpr f args) \<and>
   customizeASTExprRepr pkg result (UnaryExpr p NOT (Ident q n)) =
     customizeASTExprRepr pkg (\<not> result) (Ident q n) \<and>
   customizeASTExprRepr pkg result (UnaryExpr p NOT (ParenExpr q e)) =
     customizeASTExprRepr pkg (\<not> result) (ParenExpr q e) \<and>
   customizeASTExprRepr pkg result (UnaryExpr p NOT (UnaryExpr q op e)) =
     customizeASTExprRepr pkg (\<not> result) (UnaryExpr q op e) \<and>
   customizeASTExprRepr pkg result (UnaryExpr p NOT NilExpr) =
     Returns ('''', Some (UnhandledUnaryExprOperator NilExpr)) \<and>
   customizeASTExprRepr pkg result (UnaryExpr p NOT (BinaryExpr e op e')) =
     Returns ('''', Some (UnhandledUnaryExprOperator (BinaryExpr e op e'))) \<and>
   customizeASTExprRepr pkg result (UnaryExpr p NOT (FuncLit q c)) =
     Returns ('''', Some (UnhandledUnaryExprOperator (FuncLit q c))) \<and>
   customizeASTExprRepr pkg result (UnaryExpr p NOT (SelectorExpr e e')) =
     Returns ('''', Some (UnhandledUnaryExprOperator (SelectorExpr e e'))) \<and>
   customizeASTExprRepr pkg result (UnaryExpr p NOT (OtherNode ty q c)) =
     Returns ('''', Some (UnhandledUnaryExprOperator (OtherNode ty q c)))"
  by simp

text \<open>The rules on \<open>!(a)\<close>, \<open><-a\<close> and \<open>!s.ok\<close> in the package of the test file.\<close>

theorem wrappers_and_negation_witness:
  "customizeASTExprRepr testPkg True (UnaryExpr 1 NOT (ParenExpr 2 (Ident 216 ''a''))) =
     Returns (''var a is false'', None) \<and>
   customizeASTExprRepr testPkg True (UnaryExpr 1 ARROW (Ident 216 ''a'')) =
     Returns (''var a is true'', None) \<and>
   customizeASTExprRepr testPkg True (UnaryExpr 1 NOT (SelectorExpr (Ident 3 ''s'') (Ident 5 ''ok''))) =
     Returns ('''', Some (UnhandledUnaryExprOperator (SelectorExpr (Ident 3 ''s'') (Ident 5 ''ok''))))"
  using wrappers_and_negation [where pkg = testPkg and result = True and p = 1 and e = "Ident 216 ''a''"
      and q = 2]
    wrappers_and_negation [where pkg = testPkg and result = False and p = 2 and e = "Ident 216 ''a''"]
    wrappers_and_negation [where pkg = testPkg and result = True and p = 1 and e = "Ident 3 ''s''"
      and e' = "Ident 5 ''ok''"]
  by (simp add: testPkg_fields boolString_def)

section \<open>FromBool\<close>

text \<open>\<open>FromBool\<close> once the call expression of the caller is found.\<close>

lemma FromBool_located:
  "Caller w (i + 1) = Some (callerFile, callerLine) \<Longrightarrow>
   GetPackageAST w (CleanDir w callerFile) g = (Inr ps, g1) \<Longrightarrow>
   GetCallerCallExpr ps callerFile callerLine = Inr (e, node, pkg) \<Longrightarrow>
   FromBool w i result g =
     (case selectArg e of
        Inl err \<Rightarrow> (Returns ('''', Some err), g1)
      | Inr arg \<Rightarrow> (explainArg pkg result e arg, g1))"
  by (simp add: FromBool_def)

lemma testFile_line1_Suc:
  "GetCallerCallExpr [(''example.org/pkg'', testPkg)] ''/src/pkg/x_test.go'' (Suc 0) =
     Inr (CallExpr (Ident 101 ''helper'') [], testFile, testPkg)"
  using testFile_line1 by simp

text \<open>
  Line 1 of the test file is the call \<open>helper()\<close>: with no argument there is no subject, and
  \<open>FromBool\<close> returns the error of the default case with an empty message.
\<close>

theorem zero_arguments_counterexample:
  "selectArg (CallExpr (Ident 101 ''helper'') []) = Inl (UnexpectedCallExprArgumentsNumber 0) \<and>
   FromBool testWorld 0 True startGlobals =
     (Returns ('''', Some (UnexpectedCallExprArgumentsNumber 0)), loadedGlobals)"
  by (simp add: FromBool_def testWorld_fields testWorld_GetPackageAST testFile_line1_Suc selectArg_def)

text \<open>
  Claim C4, amended. When \<open>FromBool\<close> has located the caller's call expression, a call with
  exactly one argument is a custom check whose sole argument is explained, a call with two
  or more arguments has its second argument explained (never the first), and a call with no
  argument yields the error "unexpected call expr arguments number 0" with an empty message.
\<close>

theorem subject_selection:
  "Caller w (i + 1) = Some (callerFile, callerLine) \<Longrightarrow>
   GetPackageAST w (CleanDir w callerFile) g = (Inr ps, g1) \<Longrightarrow>
   GetCallerCallExpr ps callerFile callerLine = Inr (CallExpr f args, node, pkg) \<Longrightarrow>
   FromBool w i result g =
     (case args of
        [] \<Rightarrow> (Returns ('''', Some (UnexpectedCallExprArgumentsNumber 0)), g1)
      | [a] \<Rightarrow> (explainArg pkg result (CallExpr f args) a, g1)
      | a # b # rest \<Rightarrow> (explainArg pkg result (CallExpr f args) b, g1))"
  by (simp add: FromBool_located selectArg_def split: list.splits)

text \<open>Lines 1, 4 and 2 of the test file: no argument, one argument, two arguments.\<close>

theorem subject_selection_witness:
  "FromBool testWorld 0 True startGlobals =
     (Returns ('''', Some (UnexpectedCallExprArgumentsNumber 0)), loadedGlobals) \<and>
   FromBool testWorld 3 True startGlobals =
     (Returns (''function check(t) returned true'', None), loadedGlobals) \<and>
   FromBool testWorld 1 True startGlobals =
     (Returns (''var a is true, and var b is true'', None), loadedGlobals)"
proof -
  have c: "\<And>i. 0 \<le> i \<Longrightarrow> i \<le> 9 \<Longrightarrow> Caller testWorld (i + 1) = Some (''/src/pkg/x_test.go'', nat (i + 1))"
    by (simp add: testWorld_fields)
  have g: "GetPackageAST testWorld (CleanDir testWorld ''/src/pkg/x_test.go'') startGlobals =
      (Inr [(''example.org/pkg'', testPkg)], loadedGlobals)"
    by (simp add: testWorld_fields testWorld_GetPackageAST)
  have l1: "GetCallerCallExpr [(''example.org/pkg'', testPkg)] ''/src/pkg/x_test.go'' (nat (0 + 1)) =
      Inr (CallExpr (Ident 101 ''helper'') [], testFile, testPkg)"
    using testFile_line1 by simp
  have l4: "GetCallerCallExpr [(''example.org/pkg'', testPkg)] ''/src/pkg/x_test.go'' (nat (3 + 1)) =
     Inr (CallExpr (SelectorExpr (Ident 401 ''test'') (Ident 406 ''Assert''))
            [CallExpr (Ident 413 ''check'') [Ident 419 ''t'']], testFile, testPkg)"
    using testFile_line4 by simp
  have l2: "GetCallerCallExpr [(''example.org/pkg'', testPkg)] ''/src/pkg/x_test.go'' (nat (1 + 1)) =
     Inr (CallExpr (SelectorExpr (Ident 201 ''test'') (Ident 206 ''Assert''))
            [Ident 213 ''t'', BinaryExpr (Ident 216 ''a'') LAND (Ident 221 ''b'')], testFile, testPkg)"
    using testFile_line2 by simp
  show ?thesis
    using subject_selection [OF c [of 0] g l1, of True] subject_selection [OF c [of 3] g l4, of True]
      subject_selection [OF c [of 1] g l2, of True]
    by (simp add: explainArg_def testPkg_fields testPkg_text getIdentSelector_def callRepr_def boolString_def)
qed

text \<open>
  With no caller information, and with a directory that does not load, \<open>FromBool\<close> returns
  the empty message, not the text of a call expression.
\<close>

theorem failures_without_caller_counterexample:
  "FromBool testWorld 10 True startGlobals = (Returns ('''', Some NoCallerInformation), startGlobals) \<and>
   FromBool brokenWorld 0 False startGlobals =
     (Returns ('''', Some (UnableToGetPackageAST (UnableToParseCallerPackage ''/src/pkg''
        (UnableToLoadPackages ''no such directory'')))), startGlobals\<lparr>loads := [''/src/pkg'']\<rparr>)"
  by (simp add: FromBool_def testWorld_fields brokenWorld_fields brokenWorld_GetPackageAST)

text \<open>
  Claim C5, amended. Every failure inside \<open>FromBool\<close> returns a non-nil error. When the
  rendering of the chosen argument fails, the message is the re-serialized text of the whole
  call expression; when the caller lookup, the loading of the package syntax, the resolution
  of the call expression or the choice of the argument fails, the message is empty.
\<close>

theorem failure_results:
  "(Caller w (i + 1) = None \<longrightarrow>
      FromBool w i result g = (Returns ('''', Some NoCallerInformation), g)) \<and>
   (Caller w (i + 1) = Some (callerFile, callerLine) \<and> GetPackageAST w (CleanDir w callerFile) g = (Inl err, g1) \<longrightarrow>
      FromBool w i result g = (Returns ('''', Some (UnableToGetPackageAST err)), g1)) \<and>
   (Caller w (i + 1) = Some (callerFile, callerLine) \<and> GetPackageAST w (CleanDir w callerFile) g = (Inr ps, g1) \<and>
    GetCallerCallExpr ps callerFile callerLine = Inl err \<longrightarrow>
      FromBool w i result g = (Returns ('''', Some (UnableToGetCallExprFromCaller err)), g1)) \<and>
   (Caller w (i + 1) = Some (callerFile, callerLine) \<and> GetPackageAST w (CleanDir w callerFile) g = (Inr ps, g1) \<and>
    GetCallerCallExpr ps callerFile callerLine = Inr (e, node, pkg) \<and> selectArg e = Inl err \<longrightarrow>
      FromBool w i result g = (Returns ('''', Some err), g1)) \<and>
   (Caller w (i + 1) = Some (callerFile, callerLine) \<and> GetPackageAST w (CleanDir w callerFile) g = (Inr ps, g1) \<and>
    GetCallerCallExpr ps callerFile callerLine = Inr (e, node, pkg) \<and> selectArg e = Inr arg \<and>
    customizeASTExprRepr pkg result arg = Returns (msg, Some err) \<longrightarrow>
      FromBool w i result g =
        (Returns (genericASTExprToString pkg e, Some (UnableToGetArgRepr err)), g1))"
  by (simp add: FromBool_def explainArg_def)

text \<open>
  The five failures in the test file: no frame, a directory that does not load, line 10
  without a call, line 1 without an argument, line 5 with a composite literal.
\<close>

theorem failure_results_witness:
  "FromBool testWorld 10 True startGlobals = (Returns ('''', Some NoCallerInformation), startGlobals) \<and>
   FromBool brokenWorld 0 False startGlobals =
     (Returns ('''', Some (UnableToGetPackageAST (UnableToParseCallerPackage ''/src/pkg''
        (UnableToLoadPackages ''no such directory'')))), startGlobals\<lparr>loads := [''/src/pkg'']\<rparr>) \<and>
   FromBool testWorld 9 True startGlobals =
     (Returns ('''', Some (UnableToGetCallExprFromCaller
        (UnableToGetCallExpression ASTInspectionDidNotReturnANode))), loadedGlobals) \<and>
   FromBool testWorld 0 True startGlobals =
     (Returns ('''', Some (UnexpectedCallExprArgumentsNumber 0)), loadedGlobals) \<and>
   FromBool testWorld 4 True startGlobals =
     (Returns (''test.Assert(t, T{})'',
        Some (UnableToGetArgRepr (UnhandledExprType (OtherNode ''*ast.CompositeLit'' 516 [])))),
      loadedGlobals)"
proof -
  have a: "FromBool testWorld 10 True startGlobals = (Returns ('''', Some NoCallerInformation), startGlobals)"
    using failure_results [where w = testWorld and i = 10 and result = True and g = startGlobals]
    by (simp add: testWorld_fields)
  have b: "FromBool brokenWorld 0 False startGlobals =
     (Returns ('''', Some (UnableToGetPackageAST (UnableToParseCallerPackage ''/src/pkg''
        (UnableToLoadPackages ''no such directory'')))), startGlobals\<lparr>loads := [''/src/pkg'']\<rparr>)"
    using failure_results [where w = brokenWorld and i = 0 and result = False and g = startGlobals
        and callerFile = "''/src/pkg/x_test.go''" and callerLine = 1
        and err = "UnableToParseCallerPackage ''/src/pkg'' (UnableToLoadPackages ''no such directory'')"
        and ?g1.0 = "startGlobals\<lparr>loads := [''/src/pkg'']\<rparr>"]
    by (simp add: brokenWorld_fields brokenWorld_GetPackageAST)
  have c: "FromBool testWorld 9 True startGlobals =
     (Returns ('''', Some (UnableToGetCallExprFromCaller
        (UnableToGetCallExpression ASTInspectionDidNotReturnANode))), loadedGlobals)"
    using failure_results [where w = testWorld and i = 9 and result = True and g = startGlobals
        and callerFile = "''/src/pkg/x_test.go''" and callerLine = 10
        and err = "UnableToGetCallExpression ASTInspectionDidNotReturnANode"
        and ?g1.0 = loadedGlobals and ps = "[(''example.org/pkg'', testPkg)]"]
    by (simp add: testWorld_fields testWorld_GetPackageAST testFile_line10)
  have d: "FromBool testWorld 0 True startGlobals =
     (Returns ('''', Some (UnexpectedCallExprArgumentsNumber 0)), loadedGlobals)"
    using failure_results [where w = testWorld and i = 0 and result = True and g = startGlobals
        and callerFile = "''/src/pkg/x_test.go''" and callerLine = 1
        and err = "UnexpectedCallExprArgumentsNumber 0"
        and ?g1.0 = loadedGlobals and ps = "[(''example.org/pkg'', testPkg)]"
        and e = "CallExpr (Ident 101 ''helper'') []" and node = testFile and pkg = testPkg]
    by (simp add: testWorld_fields testWorld_GetPackageAST testFile_line1_Suc selectArg_def)
  have e: "FromBool testWorld 4 True startGlobals =
     (Returns (''test.Assert(t, T{})'',
        Some (UnableToGetArgRepr (UnhandledExprType (OtherNode ''*ast.CompositeLit'' 516 [])))),
      loadedGlobals)"
    using failure_results [where w = testWorld and i = 4 and result = True and g = startGlobals
        and callerFile = "''/src/pkg/x_test.go''" and callerLine = 5
        and err = "UnhandledExprType (OtherNode ''*ast.CompositeLit'' 516 [])"
        and ?g1.0 = loadedGlobals and ps = "[(''example.org/pkg'', testPkg)]"
        and e = "CallExpr (SelectorExpr (Ident 501 ''test'') (Ident 506 ''Assert''))
            [Ident 513 ''t'', OtherNode ''*ast.CompositeLit'' 516 []]" and node = testFile and pkg = testPkg
        and arg = "OtherNode ''*ast.CompositeLit'' 516 []" and msg = "''''"]
    by (simp add: testWorld_fields testWorld_GetPackageAST testFile_line5 selectArg_def testPkg_text)
  show ?thesis using a b c d e by simp
qed

section \<open>The cache of package syntax\<close>

text \<open>A cached directory is answered from the cache; any other directory is parsed.\<close>

lemma GetPackageAST_hit:
  "cacheLookup g pkgDir = Some m \<Longrightarrow> GetPackageAST w pkgDir g = (Inr m, g)"
  by (simp add: GetPackageAST_def)

lemma GetPackageAST_miss:
  "cacheLookup g pkgDir = None \<Longrightarrow>
   GetPackageAST w pkgDir g =
     (case ParsePackageAST w pkgDir g of
        (Inl err, g1) \<Rightarrow> (Inl (UnableToParseCallerPackage pkgDir err), g1)
      | (Inr m, g1) \<Rightarrow>
          (Inr m, g1\<lparr>astPkgPathToPkg :=
             Some ((case astPkgPathToPkg g1 of None \<Rightarrow> Map.empty | Some c \<Rightarrow> c)(pkgDir \<mapsto> m))\<rparr>))"
  by (auto simp add: GetPackageAST_def Let_def split: prod.splits sum.splits option.splits)

lemma ParsePackageAST_globals:
  "snd (ParsePackageAST w pkgDir g) = g\<lparr>loads := loads g @ [pkgDir]\<rparr>"
  by (simp add: ParsePackageAST_def Let_def split: sum.splits)

lemma GetPackageAST_success_cached:
  "GetPackageAST w pkgDir g = (Inr m, g1) \<Longrightarrow> cacheLookup g1 pkgDir = Some m"
proof (cases "cacheLookup g pkgDir")
  case None
  assume a: "GetPackageAST w pkgDir g = (Inr m, g1)"
  show ?thesis
    using a None by (auto simp add: GetPackageAST_miss cacheLookup_def split: prod.splits sum.splits)
next
  case (Some m')
  assume a: "GetPackageAST w pkgDir g = (Inr m, g1)"
  show ?thesis using a Some by (simp add: GetPackageAST_hit)
qed

lemma GetPackageAST_keeps_entries:
  "cacheLookup g pkgDir = Some m \<Longrightarrow> cacheLookup (snd (GetPackageAST w' d g)) pkgDir = Some m"
proof (cases "cacheLookup g d")
  case None
  assume a: "cacheLookup g pkgDir = Some m"
  then have ne: "d \<noteq> pkgDir" using None by auto
  have "snd (ParsePackageAST w' d g) = g\<lparr>loads := loads g @ [d]\<rparr>" by (rule ParsePackageAST_globals)
  then show ?thesis
    using a None ne
    by (auto simp add: GetPackageAST_miss cacheLookup_def split: prod.splits sum.splits option.splits)
next
  case (Some m')
  assume a: "cacheLookup g pkgDir = Some m"
  show ?thesis using a Some by (simp add: GetPackageAST_hit)
qed

text \<open>
  Claim C8. After one successful \<open>GetPackageAST(dir)\<close> the mapping is cached, and every later
  \<open>GetPackageAST(dir)\<close> returns the same mapping without a call to \<open>packages.Load\<close> and
  leaves the process unchanged, whatever was loaded in between. When the parse fails,
  \<open>GetPackageAST\<close> returns an error, the cache is unchanged, nothing is stored for the
  directory, and the next call parses again.
\<close>

theorem cache_hits_and_failed_loads:
  "(GetPackageAST w pkgDir g = (Inr m, g1) \<longrightarrow>
      cacheLookup g1 pkgDir = Some m \<and> GetPackageAST w' pkgDir g1 = (Inr m, g1)) \<and>
   (cacheLookup g pkgDir = Some m \<longrightarrow>
      GetPackageAST w' pkgDir g = (Inr m, g) \<and>
      cacheLookup (snd (GetPackageAST w' d g)) pkgDir = Some m) \<and>
   (cacheLookup g pkgDir = None \<and> fst (ParsePackageAST w pkgDir g) = Inl err \<longrightarrow>
      GetPackageAST w pkgDir g =
        (Inl (UnableToParseCallerPackage pkgDir err), g\<lparr>loads := loads g @ [pkgDir]\<rparr>) \<and>
      astPkgPathToPkg (snd (GetPackageAST w pkgDir g)) = astPkgPathToPkg g \<and>
      cacheLookup (snd (GetPackageAST w pkgDir g)) pkgDir = None \<and>
      loads (snd (GetPackageAST w' pkgDir (snd (GetPackageAST w pkgDir g)))) =
        loads g @ [pkgDir, pkgDir] \<and>
      fst (GetPackageAST w' pkgDir (snd (GetPackageAST w pkgDir g))) =
        (case fst (ParsePackageAST w' pkgDir (snd (GetPackageAST w pkgDir g))) of
           Inl err' \<Rightarrow> Inl (UnableToParseCallerPackage pkgDir err')
         | Inr m' \<Rightarrow> Inr m'))"
proof (intro conjI impI)
  assume a: "GetPackageAST w pkgDir g = (Inr m, g1)"
  show c: "cacheLookup g1 pkgDir = Some m" using a by (rule GetPackageAST_success_cached)
  show "GetPackageAST w' pkgDir g1 = (Inr m, g1)" using c by (rule GetPackageAST_hit)
next
  assume a: "cacheLookup g pkgDir = Some m"
  show "GetPackageAST w' pkgDir g = (Inr m, g)" using a by (rule GetPackageAST_hit)
  show "cacheLookup (snd (GetPackageAST w' d g)) pkgDir = Some m"
    using a by (rule GetPackageAST_keeps_entries)
next
  assume a: "cacheLookup g pkgDir = None \<and> fst (ParsePackageAST w pkgDir g) = Inl err"
  have p: "ParsePackageAST w pkgDir g = (Inl err, g\<lparr>loads := loads g @ [pkgDir]\<rparr>)"
    using a ParsePackageAST_globals [of w pkgDir g] by (cases "ParsePackageAST w pkgDir g") simp
  show r: "GetPackageAST w pkgDir g =
      (Inl (UnableToParseCallerPackage pkgDir err), g\<lparr>loads := loads g @ [pkgDir]\<rparr>)"
    using a p by (simp add: GetPackageAST_miss)
  show "astPkgPathToPkg (snd (GetPackageAST w pkgDir g)) = astPkgPathToPkg g"
    by (simp add: r)
  show n: "cacheLookup (snd (GetPackageAST w pkgDir g)) pkgDir = None"
    using a by (simp add: r cacheLookup_def)
  have q: "snd (ParsePackageAST w' pkgDir (g\<lparr>loads := loads g @ [pkgDir]\<rparr>)) =
      g\<lparr>loads := loads g @ [pkgDir, pkgDir]\<rparr>"
    by (simp add: ParsePackageAST_globals)
  show "loads (snd (GetPackageAST w' pkgDir (snd (GetPackageAST w pkgDir g)))) =
      loads g @ [pkgDir, pkgDir]"
    using n q unfolding r
    by (auto simp add: GetPackageAST_miss split: prod.splits sum.splits)
  show "fst (GetPackageAST w' pkgDir (snd (GetPackageAST w pkgDir g))) =
        (case fst (ParsePackageAST w' pkgDir (snd (GetPackageAST w pkgDir g))) of
           Inl err' \<Rightarrow> Inl (UnableToParseCallerPackage pkgDir err')
         | Inr m' \<Rightarrow> Inr m')"
    using n by (auto simp add: GetPackageAST_miss split: prod.splits sum.splits)
qed

text \<open>
  The directory of the test file: loaded once and then answered from the cache even when it
  no longer loads; and a failed load followed by a second load.
\<close>

theorem cache_hits_and_failed_loads_witness:
  "GetPackageAST testWorld ''/src/pkg'' startGlobals = (Inr [(''example.org/pkg'', testPkg)], loadedGlobals) \<and>
   GetPackageAST brokenWorld ''/src/pkg'' loadedGlobals = (Inr [(''example.org/pkg'', testPkg)], loadedGlobals) \<and>
   GetPackageAST brokenWorld ''/src/pkg'' startGlobals =
     (Inl (UnableToParseCallerPackage ''/src/pkg'' (UnableToLoadPackages ''no such directory'')),
      startGlobals\<lparr>loads := [''/src/pkg'']\<rparr>) \<and>
   loads (snd (GetPackageAST testWorld ''/src/pkg'' (startGlobals\<lparr>loads := [''/src/pkg'']\<rparr>))) =
     [''/src/pkg'', ''/src/pkg'']"
proof -
  have l: "cacheLookup startGlobals ''/src/pkg'' = None"
    by (simp add: cacheLookup_def startGlobals_def)
  have p: "fst (ParsePackageAST brokenWorld ''/src/pkg'' startGlobals) = Inl (UnableToLoadPackages ''no such directory'')"
    by (simp add: ParsePackageAST_def brokenWorld_fields)
  have s: "loads startGlobals = []" by (simp add: startGlobals_def)
  note hit = cache_hits_and_failed_loads [where w = testWorld and pkgDir = "''/src/pkg''" and g = startGlobals
      and m = "[(''example.org/pkg'', testPkg)]" and ?g1.0 = loadedGlobals and w' = brokenWorld,
      THEN conjunct1, rule_format, OF testWorld_GetPackageAST]
  note miss = cache_hits_and_failed_loads [where w = brokenWorld and pkgDir = "''/src/pkg''" and g = startGlobals
      and err = "UnableToLoadPackages ''no such directory''" and w' = testWorld,
      THEN conjunct2, THEN conjunct2, rule_format, OF conjI [OF l p]]
  have r: "GetPackageAST brokenWorld ''/src/pkg'' startGlobals =
     (Inl (UnableToParseCallerPackage ''/src/pkg'' (UnableToLoadPackages ''no such directory'')),
      startGlobals\<lparr>loads := [''/src/pkg'']\<rparr>)"
    using miss [THEN conjunct1] s by simp
  have again: "loads (snd (GetPackageAST testWorld ''/src/pkg'' (startGlobals\<lparr>loads := [''/src/pkg'']\<rparr>))) =
     [''/src/pkg'', ''/src/pkg'']"
    using miss [THEN conjunct2, THEN conjunct2, THEN conjunct2, THEN conjunct1] s
    unfolding r by simp
  show ?thesis using hit r again by (simp add: testWorld_GetPackageAST)
qed

section \<open>Assert, Require and logResult\<close>

text \<open>Line 3 of the test file explains the literal \<open>false\<close>.\<close>

lemma testWorld_line3:
  "FromBool testWorld 2 False startGlobals = (Returns (''literal false'', None), loadedGlobals)"
  by (simp add: FromBool_def testWorld_fields testWorld_GetPackageAST testFile_line3 selectArg_def
      explainArg_def testPkg_fields)

lemma logResult_logged:
  "FromBool w (i + 1) result g = (Returns (msg, err), g1) \<Longrightarrow>
   \<not> result \<or> SuccessMessageEnabled g \<or> flagEnableSuccessMessage g \<Longrightarrow>
   logResult w t result i msgAndArgs g =
     (Returns (logMsg (case err of
                         Some e \<Rightarrow>
                           t @ [Helper,
                                Logf ''krostar/test internal failure: unable to get assertion message: %v''
                                  [ArgError e]]
                       | None \<Rightarrow> t @ [Helper])
                 result (appendMsgAndArgs w msg (dropEmptyMessage msgAndArgs))), g1)"
  by (auto simp add: logResult_def Let_def split: option.splits)

text \<open>
  Claim C9. When the first optional message argument of \<open>Assert\<close> or \<open>Require\<close> is the empty
  string, it is dropped before formatting: the suffix appended to the explanation is built
  from the remaining arguments only, and with no remaining argument nothing is appended. The
  same holds for \<open>Assert\<close> and \<open>Require\<close> of \<open>assert.go\<close>.
\<close>

theorem empty_first_message_dropped:
  "FromBool w 2 result g = (Returns (msg, err), g1) \<Longrightarrow>
   \<not> result \<or> SuccessMessageEnabled g \<or> flagEnableSuccessMessage g \<Longrightarrow>
   Assert w t result (VString '''' # rest) g =
     (Returns (logMsg (case err of
                         Some e \<Rightarrow>
                           t @ [Helper, Helper,
                                Logf ''krostar/test internal failure: unable to get assertion message: %v''
                                  [ArgError e]]
                       | None \<Rightarrow> t @ [Helper, Helper])
                 result (appendMsgAndArgs w msg rest) @ (if result then [] else [Fail]), result), g1) \<and>
   Require w t result (VString '''' # rest) g =
     (Returns (logMsg (case err of
                         Some e \<Rightarrow>
                           t @ [Helper, Helper,
                                Logf ''krostar/test internal failure: unable to get assertion message: %v''
                                  [ArgError e]]
                       | None \<Rightarrow> t @ [Helper, Helper])
                 result (appendMsgAndArgs w msg rest) @ (if result then [] else [FailNow])), g1) \<and>
   appendMsgAndArgs w msg [] = msg \<and>
   Assert_assert_go w t result (VString '''' # rest) g = eval_assert_go w (t @ [Helper]) result 1 rest g \<and>
   Require_assert_go w t result (VString '''' # rest) g =
     (case eval_assert_go w (t @ [Helper]) result 1 rest g of
        (Panics q, g') \<Rightarrow> (Panics q, g')
      | (Returns (t1, r), g') \<Rightarrow> (Returns (if \<not> r then t1 @ [FailNow] else t1), g'))"
proof -
  assume f: "FromBool w 2 result g = (Returns (msg, err), g1)"
    and l: "\<not> result \<or> SuccessMessageEnabled g \<or> flagEnableSuccessMessage g"
  have f': "FromBool w (1 + 1) result g = (Returns (msg, err), g1)" using f by simp
  have d: "dropEmptyMessage (VString '''' # rest) = rest" by (simp add: dropEmptyMessage_def)
  note lr = logResult_logged [OF f' l, of "t @ [Helper]" "VString '''' # rest", unfolded d]
  show ?thesis
    by (simp add: Assert_def Require_def lr Assert_assert_go_def Require_assert_go_def d
        appendMsgAndArgs_def split: option.splits)
qed

text \<open>The messages \<open>"", "%s", "hello"\<close> and the single message \<open>""\<close> on line 3 of the test file.\<close>

theorem empty_first_message_dropped_witness:
  "Assert testWorld [] False [VString '''', VString ''%s'', VString ''hello''] startGlobals =
     (Returns ([Helper, Helper, Logf ''Error: %s'' [ArgString ''literal false [hello]''], Fail], False),
      loadedGlobals) \<and>
   Require testWorld [] False [VString ''''] startGlobals =
     (Returns [Helper, Helper, Logf ''Error: %s'' [ArgString ''literal false''], FailNow], loadedGlobals)"
  using empty_first_message_dropped [OF testWorld_line3, of "[]" "[VString ''%s'', VString ''hello'']"]
    empty_first_message_dropped [OF testWorld_line3, of "[]" "[]"]
  by (simp add: appendMsgAndArgs_def logMsg_def testWorld_def)

text \<open>
  A single message argument that is the empty string is not appended in square brackets:
  the logged line is the explanation alone.
\<close>

theorem single_empty_message_counterexample:
  "logResult testWorld [] False 1 [VString ''''] startGlobals =
     (Returns [Helper, Logf ''Error: %s'' [ArgString ''literal false'']], loadedGlobals) \<and>
   logResult testWorld [] False 1 [VString ''''] startGlobals \<noteq>
     (Returns [Helper, Logf ''Error: %s'' [ArgString ''literal false []'']], loadedGlobals)"
  by (simp add: logResult_def testWorld_line3 dropEmptyMessage_def appendMsgAndArgs_def logMsg_def)

text \<open>
  Claim C10, amended. When two or more message arguments are given and the first is not a
  string, the logged message is the explanation, a space, and the default formatting of the
  whole argument slice. When exactly one message argument is given and it is not the empty
  string, it is appended in square brackets whatever its type.
\<close>

theorem messages_appended:
  "FromBool w (i + 1) result g = (Returns (msg, err), g1) \<Longrightarrow>
   \<not> result \<or> SuccessMessageEnabled g \<or> flagEnableSuccessMessage g \<Longrightarrow>
   (2 \<le> length msgAndArgs \<and> (\<forall>s. msgAndArgs ! 0 \<noteq> VString s) \<longrightarrow>
      logResult w t result i msgAndArgs g =
        (Returns (logMsg (case err of
                            Some e \<Rightarrow>
                              t @ [Helper,
                                   Logf ''krostar/test internal failure: unable to get assertion message: %v''
                                     [ArgError e]]
                          | None \<Rightarrow> t @ [Helper])
                    result (msg @ '' '' @ fmt_v_slice msgAndArgs)), g1)) \<and>
   (a \<noteq> VString '''' \<longrightarrow>
      logResult w t result i [a] g =
        (Returns (logMsg (case err of
                            Some e \<Rightarrow>
                              t @ [Helper,
                                   Logf ''krostar/test internal failure: unable to get assertion message: %v''
                                     [ArgError e]]
                          | None \<Rightarrow> t @ [Helper])
                    result (msg @ '' ['' @ fmt_v a @ '']'')), g1))"
proof (intro conjI impI)
  assume f: "FromBool w (i + 1) result g = (Returns (msg, err), g1)"
    and l: "\<not> result \<or> SuccessMessageEnabled g \<or> flagEnableSuccessMessage g"
  {
    assume a: "2 \<le> length msgAndArgs \<and> (\<forall>s. msgAndArgs ! 0 \<noteq> VString s)"
    then have d: "dropEmptyMessage msgAndArgs = msgAndArgs" by (simp add: dropEmptyMessage_def)
    have "appendMsgAndArgs w msg msgAndArgs = msg @ '' '' @ fmt_v_slice msgAndArgs"
      using a by (cases "msgAndArgs ! 0") (simp_all add: appendMsgAndArgs_def Let_def)
    then show "logResult w t result i msgAndArgs g =
        (Returns (logMsg (case err of
                            Some e \<Rightarrow>
                              t @ [Helper,
                                   Logf ''krostar/test internal failure: unable to get assertion message: %v''
                                     [ArgError e]]
                          | None \<Rightarrow> t @ [Helper])
                    result (msg @ '' '' @ fmt_v_slice msgAndArgs)), g1)"
      by (simp add: logResult_logged [OF f l] d)
  }
  {
    assume a: "a \<noteq> VString ''''"
    then have d: "dropEmptyMessage [a] = [a]" by (simp add: dropEmptyMessage_def)
    show "logResult w t result i [a] g =
        (Returns (logMsg (case err of
                            Some e \<Rightarrow>
                              t @ [Helper,
                                   Logf ''krostar/test internal failure: unable to get assertion message: %v''
                                     [ArgError e]]
                          | None \<Rightarrow> t @ [Helper])
                    result (msg @ '' ['' @ fmt_v a @ '']'')), g1)"
      by (simp add: logResult_logged [OF f l] d appendMsgAndArgs_def)
  }
qed

text \<open>The messages \<open>42, "hello"\<close> and the single message \<open>7\<close> on line 3 of the test file.\<close>

theorem messages_appended_witness:
  "logResult testWorld [] False 1 [VInt 42, VString ''hello''] startGlobals =
     (Returns [Helper, Logf ''Error: %s'' [ArgString ''literal false [42 hello]'']], loadedGlobals) \<and>
   logResult testWorld [] False 1 [VInt 7] startGlobals =
     (Returns [Helper, Logf ''Error: %s'' [ArgString ''literal false [7]'']], loadedGlobals)"
proof -
  have f: "FromBool testWorld (1 + 1) False startGlobals = (Returns (''literal false'', None), loadedGlobals)"
    using testWorld_line3 by simp
  show ?thesis
    using messages_appended [OF f, of "[VInt 42, VString ''hello'']" "[]" "VInt 7"]
    by (simp add: logMsg_def fmt_v_slice_def intString_def natString.simps)
qed

end
